theory Spec2Isabelle
  imports Main "HOL-Library.Word"
begin

unbundle bit_operations_syntax

section \<open>Data model\<close>

text \<open>
  A WebSocket client is compared by reference identity; the model names each live socket
  by a number. A binary frame is a \<open>Uint8Array\<close>. Strings are 8-bit character lists,
  which is what the HTTP request target of an \<open>IncomingMessage\<close> holds.
\<close>

type_synonym WebSocket = nat

type_synonym Uint8Array = "8 word list"

text \<open>
  The error classes thrown in the sources: \<open>NotInDBError\<close> and \<open>ForbiddenIdError\<close>
  (notes.service), \<open>AlreadyAttachedError\<close> (the registry of the specification, section 4.2)
  and the plain \<open>Error\<close> of JavaScript, each with its message.
\<close>

datatype error =
    NotInDBError string
  | ForbiddenIdError string
  | AlreadyAttachedError string
  | Error string

record User =
  userName :: string

record Note =
  note_id :: string
  publicId :: string

record Alias =
  alias_name :: string
  alias_noteId :: string

record IncomingMessage =
  url :: "string option"
  headers :: "(string \<times> string) list"

text \<open>
  Everything the gateway and the adapter do to the outside is a call on one of their
  collaborators: the logger, the socket of a client, the users, notes and permissions
  services. The model records each call, in order, as an event. \<open>Send\<close> (\<open>client.send\<close>)
  and \<open>UpdateNote\<close> (\<open>NotesService.updateNote\<close>, the only operation of the sources that
  stores note content) are part of the collaborators' interface.
\<close>

datatype event =
    Log string
  | LogError string
  | Debug string string
  | Close WebSocket
  | Send WebSocket Uint8Array
  | GetUserByUsername string
  | GetNoteByIdOrAlias string
  | MayRead User Note
  | UpdateNote Note string

section \<open>The note-client registry\<close>

text \<open>
  Modelled from the spec: the class \<open>NoteClientMap\<close> (\<open>./note-client-map\<close>, imported by the
  gateway) is not among the sources. Section 4.2 of the specification describes it as the
  session registry: a connection is attached to at most one document; \<open>attach\<close> fails with
  \<open>AlreadyAttachedError\<close> when the connection is already mapped; \<open>detach\<close> removes the
  mapping; \<open>peers\<close> are the other connections of the same document.
\<close>

type_synonym NoteClientMap = "WebSocket \<rightharpoonup> string"

text \<open>Modelled from the spec: the document a connection is attached to, if any.\<close>

definition getNoteIdByClient :: "NoteClientMap \<Rightarrow> WebSocket \<Rightarrow> string option" where
  "getNoteIdByClient m client = m client"

text \<open>
  Modelled from the spec: \<open>attach\<close>, which fails when the connection is already mapped.
\<close>

definition addClient :: "NoteClientMap \<Rightarrow> WebSocket \<Rightarrow> string \<Rightarrow> error + NoteClientMap" where
  "addClient m client noteId =
     (case m client of
        Some _ \<Rightarrow> Inl (AlreadyAttachedError ''client is already attached'')
      | None \<Rightarrow> Inr (m(client \<mapsto> noteId)))"

text \<open>Modelled from the spec: \<open>detach\<close>, which removes the mapping of the connection.\<close>

definition removeClient :: "NoteClientMap \<Rightarrow> WebSocket \<Rightarrow> NoteClientMap" where
  "removeClient m client = m(client := None)"

text \<open>
  Modelled from the spec: \<open>peers\<close>, the connections of a document other than the
  originating one.
\<close>

definition peers :: "NoteClientMap \<Rightarrow> string \<Rightarrow> WebSocket \<Rightarrow> WebSocket set" where
  "peers m noteId excluding = {c. m c = Some noteId \<and> c \<noteq> excluding}"

section \<open>Gateway state and collaborators\<close>

text \<open>
  The only field the gateway mutates is \<open>noteClientMap\<close>; \<open>trace\<close> is the list of calls
  made on the collaborators so far.
\<close>

record gateway =
  noteClientMap :: NoteClientMap
  trace :: "event list"

definition emit :: "event list \<Rightarrow> gateway \<Rightarrow> gateway" where
  "emit evs st = st\<lparr>trace := trace st @ evs\<rparr>"

text \<open>The events a run from \<open>st\<close> to \<open>st'\<close> added to the trace.\<close>

definition emitted :: "gateway \<Rightarrow> gateway \<Rightarrow> event list" where
  "emitted st st' = drop (length (trace st)) (trace st')"

text \<open>
  The injected services. \<open>UsersService\<close> and \<open>PermissionsService\<close> are not among the
  sources and are parameters: the asynchronous \<open>getUserByUsername\<close> resolves to a user or
  rejects, \<open>mayRead\<close> is a synchronous boolean. \<open>NotesService\<close> is in the sources; it reads
  the configured list of forbidden ids and the note and alias tables.
\<close>

record services =
  getUserByUsername :: "string \<Rightarrow> error + User"
  mayRead :: "User \<Rightarrow> Note \<Rightarrow> bool"
  forbiddenNoteIds :: "string list"
  noteRepository :: "Note list"
  aliasRepository :: "Alias list"

section \<open>NotesService\<close>

text \<open>
  \<open>checkNoteIdOrAlias\<close> and \<open>getNoteByIdOrAlias\<close> return what they throw or resolve to,
  together with the debug lines they log.
\<close>

definition checkNoteIdOrAlias :: "services \<Rightarrow> string \<Rightarrow> (error + unit) \<times> event list" where
  "checkNoteIdOrAlias svc noteIdOrAlias =
     (if noteIdOrAlias \<in> set (forbiddenNoteIds svc)
      then (let msg = ''A note with the alias '' @ [CHR 0x27] @ noteIdOrAlias @ [CHR 0x27]
                        @ '' is forbidden by the administrator.''
            in (Inl (ForbiddenIdError msg), [Debug msg ''checkNoteIdOrAlias'']))
      else (Inr (), []))"

text \<open>
  The query selects the notes whose \<open>publicId\<close> is the parameter or whose \<open>id\<close> is the
  \<open>noteId\<close> of an alias row with that name; \<open>getOne\<close> takes the first row.
\<close>

definition queryNote :: "services \<Rightarrow> string \<Rightarrow> Note option" where
  "queryNote svc noteIdOrAlias =
     find (\<lambda>note. publicId note = noteIdOrAlias \<or>
                  note_id note \<in> set (map alias_noteId
                     (filter (\<lambda>alias. alias_name alias = noteIdOrAlias) (aliasRepository svc))))
          (noteRepository svc)"

definition getNoteByIdOrAlias :: "services \<Rightarrow> string \<Rightarrow> (error + Note) \<times> event list" where
  "getNoteByIdOrAlias svc noteIdOrAlias =
     (let dbg0 = [Debug (''Trying to find note '' @ [CHR 0x27] @ noteIdOrAlias @ [CHR 0x27])
                        ''getNoteByIdOrAlias'']
      in case checkNoteIdOrAlias svc noteIdOrAlias of
           (Inl e, dbg1) \<Rightarrow> (Inl e, dbg0 @ dbg1)
         | (Inr _, dbg1) \<Rightarrow>
             (case queryNote svc noteIdOrAlias of
                None \<Rightarrow>
                  (Inl (NotInDBError (''Note with id/alias '' @ [CHR 0x27] @ noteIdOrAlias
                                       @ [CHR 0x27] @ '' not found.'')),
                   dbg0 @ dbg1 @
                   [Debug (''Could not find note '' @ [CHR 0x27] @ noteIdOrAlias @ [CHR 0x27])
                          ''getNoteByIdOrAlias''])
              | Some note \<Rightarrow>
                  (Inr note,
                   dbg0 @ dbg1 @
                   [Debug (''Found note '' @ [CHR 0x27] @ noteIdOrAlias @ [CHR 0x27])
                          ''getNoteByIdOrAlias''])))"

section \<open>RealtimeEditorGateway\<close>

text \<open>
  \<open>String(e)\<close> of an error object is its class name, a colon and its message.
\<close>

fun String_of_error :: "error \<Rightarrow> string" where
  "String_of_error (NotInDBError m) = ''NotInDBError: '' @ m"
| "String_of_error (ForbiddenIdError m) = ''ForbiddenIdError: '' @ m"
| "String_of_error (AlreadyAttachedError m) = ''AlreadyAttachedError: '' @ m"
| "String_of_error (Error m) = ''Error: '' @ m"

text \<open>
  The admission pattern \<open>/^\/realtime\/(.+)$/\<close>, without flags: the literal prefix, then one
  or more characters up to the end of the input, none of them a line terminator (the dot
  matches no line terminator; of these only line feed and carriage return are 8-bit
  characters). \<open>exec\<close> returns the whole match and the captured group, or null.
\<close>

definition isLineTerminator :: "char \<Rightarrow> bool" where
  "isLineTerminator ch = (ch = CHR 0x0A \<or> ch = CHR 0x0D)"

definition realtimePath_exec :: "string \<Rightarrow> string list option" where
  "realtimePath_exec u =
     (let rest = drop 10 u
      in if take 10 u = ''/realtime/'' \<and> rest \<noteq> [] \<and> \<not> list_ex isLineTerminator rest
         then Some [u, rest] else None)"

definition handleDisconnect :: "WebSocket \<Rightarrow> gateway \<Rightarrow> gateway" where
  "handleDisconnect client st =
     (case getNoteIdByClient (noteClientMap st) client of
        None \<Rightarrow> st
      | Some noteIdOfClient \<Rightarrow>
          (let st1 = emit [Log (''Client disconnected from note '' @ [CHR 0x27] @ noteIdOfClient
                                  @ [CHR 0x27])] st
           in st1\<lparr>noteClientMap := removeClient (noteClientMap st1) client\<rparr>))"

text \<open>
  \<open>handleConnection\<close> is asynchronous: the result is \<open>Inr ()\<close> when its promise resolves
  and \<open>Inl e\<close> when it rejects. A rejection of the user lookup, which stands outside the
  \<open>try\<close>, and an error thrown by \<open>addClient\<close> leave the function as they are. The
  match array holds the whole match and the group, so \<open>pathMatching[1]\<close> is read only
  where the array has two entries.
\<close>

definition handleConnection ::
  "services \<Rightarrow> WebSocket \<Rightarrow> IncomingMessage \<Rightarrow> gateway \<Rightarrow> (error + unit) \<times> gateway" where
  "handleConnection svc client req st =
     (let u = (case url req of None \<Rightarrow> [] | Some v \<Rightarrow> v);
          denied = (Inr (), emit [Log (''Realtime connection denied (invalid URL path): '' @ u),
                                  Close client] st)
      in case realtimePath_exec u of
           None \<Rightarrow> denied
         | Some pathMatching \<Rightarrow>
             if length pathMatching < 2 then denied
             else
               (let noteIdFromPath = pathMatching ! 1;
                    st1 = emit [GetUserByUsername ''hardcoded''] st
                in case getUserByUsername svc ''hardcoded'' of
                     Inl e \<Rightarrow> (Inl e, st1)
                   | Inr user \<Rightarrow>
                       (let st2 = emit [GetNoteByIdOrAlias noteIdFromPath] st1
                        in case getNoteByIdOrAlias svc noteIdFromPath of
                             (Inl e, dbg) \<Rightarrow>
                               (Inr (), emit (dbg @ [Close client,
                                  LogError (''Encountered an error: '' @ String_of_error e)]) st2)
                           | (Inr note, dbg) \<Rightarrow>
                               (let st3 = emit (dbg @ [MayRead user note]) st2
                                in if \<not> mayRead svc user note
                                   then (Inr (), emit [Close client,
                                           Log (''Reading note '' @ [CHR 0x27] @ noteIdFromPath
                                                @ [CHR 0x27] @ '' by user '' @ [CHR 0x27]
                                                @ userName user @ [CHR 0x27] @ '' denied!'')] st3)
                                   else
                                     (case addClient (noteClientMap st3) client (note_id note) of
                                        Inl e \<Rightarrow> (Inl e, st3)
                                      | Inr m \<Rightarrow>
                                          (Inr (), emit [Log (''Connection to note '' @ [CHR 0x27]
                                                     @ note_id note @ [CHR 0x27] @ '' by user ''
                                                     @ [CHR 0x27] @ userName user @ [CHR 0x27])]
                                                   (st3\<lparr>noteClientMap := m\<rparr>)))))))"

definition handleMessageSync ::
  "WebSocket \<Rightarrow> Uint8Array \<Rightarrow> gateway \<Rightarrow> (error + unit) \<times> gateway" where
  "handleMessageSync client data st = (Inr (), emit [Log ''Received SYNC message''] st)"

definition handleMessageAwareness ::
  "WebSocket \<Rightarrow> Uint8Array \<Rightarrow> gateway \<Rightarrow> (error + unit) \<times> gateway" where
  "handleMessageAwareness client data st =
     (Inr (), emit [Log ''Received AWARENESS message''] st)"

definition handleMessageHedgeDoc ::
  "WebSocket \<Rightarrow> Uint8Array \<Rightarrow> gateway \<Rightarrow> (error + unit) \<times> gateway" where
  "handleMessageHedgeDoc client data st =
     (Inr (), emit [Log ''Received HEDGEDOC message''] st)"

section \<open>YjsAdapter\<close>

text \<open>
  \<open>decoding.readVarUint\<close> belongs to the library lib0, which is not among the sources: the
  decoder is a parameter of the adapter. It reads an unsigned integer from the front of the
  frame, or throws. What it returns is a JavaScript number: a non-negative integer or, where
  its arithmetic leaves the integers, \<open>Infinity\<close> or \<open>NaN\<close>.
\<close>

datatype number = Finite nat | Infinity | NaN

record decoding =
  readVarUint :: "Uint8Array \<Rightarrow> error + number"

record MessageHandler =
  message :: string
  callback :: "Uint8Array \<Rightarrow> gateway \<Rightarrow> (error + unit) \<times> gateway"

text \<open>
  The object \<open>messageTypeMap\<close> has the keys 0, 1 and 100; indexed with any other number it
  yields undefined.
\<close>

definition messageTypeMap :: "number \<Rightarrow> string option" where
  "messageTypeMap k =
     (if k = Finite 0 then Some ''messageSync''
      else if k = Finite 1 then Some ''messageAwareness''
      else if k = Finite 100 then Some ''messageHedgeDoc''
      else None)"

text \<open>
  The listener that \<open>bindMessageHandlers\<close> installs for the \<open>message\<close> event of a client.
  An exception of the decoder leaves the listener (\<open>Inl\<close>); a rejection of the handler's
  promise ends in the empty \<open>catch\<close> callback.
\<close>

definition bindMessageHandlers ::
  "decoding \<Rightarrow> WebSocket \<Rightarrow> MessageHandler list \<Rightarrow> Uint8Array \<Rightarrow> gateway
     \<Rightarrow> (error + unit) \<times> gateway" where
  "bindMessageHandlers decoding client handlers uint8Data st =
     (case readVarUint decoding uint8Data of
        Inl e \<Rightarrow> (Inl e, st)
      | Inr messageType \<Rightarrow>
          (case find (\<lambda>handler. Some (message handler) = messageTypeMap messageType) handlers of
             None \<Rightarrow> (Inr (), emit [LogError ''Some message handlers were not defined!''] st)
           | Some handler \<Rightarrow>
               (case callback handler uint8Data st of
                  (Inl error, st') \<Rightarrow> (Inr (), st')
                | (Inr _, st') \<Rightarrow> (Inr (), st'))))"

text \<open>
  The handlers of the gateway as its \<open>SubscribeMessage\<close> decorators register them, each
  bound to the client whose frames it receives.
\<close>

definition subscribedHandlers :: "WebSocket \<Rightarrow> MessageHandler list" where
  "subscribedHandlers client =
     [\<lparr>message = ''messageSync'', callback = handleMessageSync client\<rparr>,
      \<lparr>message = ''messageAwareness'', callback = handleMessageAwareness client\<rparr>,
      \<lparr>message = ''messageHedgeDoc'', callback = handleMessageHedgeDoc client\<rparr>]"

text \<open>
  The closing decision of \<open>handleConnection\<close> as a function of the services and the
  request path alone (\<open>handleConnection_closes_iff\<close> below).
\<close>

definition closes :: "services \<Rightarrow> string option \<Rightarrow> bool" where
  "closes svc requestUrl =
     (case realtimePath_exec (case requestUrl of None \<Rightarrow> [] | Some v \<Rightarrow> v) of
        None \<Rightarrow> True
      | Some pathMatching \<Rightarrow>
          (case getUserByUsername svc ''hardcoded'' of
             Inl e \<Rightarrow> False
           | Inr user \<Rightarrow>
               (case fst (getNoteByIdOrAlias svc (pathMatching ! 1)) of
                  Inl e \<Rightarrow> True
                | Inr note \<Rightarrow> \<not> mayRead svc user note)))"



section \<open>A small deployment for evaluating the model\<close>

text \<open>
  One user, two notes (the second unreadable), one alias with a slash in its name and one
  forbidden id; two clients attached to the first note.
\<close>

definition example_services :: services where
  "example_services =
     \<lparr>getUserByUsername = (\<lambda>name. if name = ''hardcoded'' then Inr \<lparr>userName = ''hardcoded''\<rparr>
                                   else Inl (NotInDBError ''User not found'')),
      mayRead = (\<lambda>user note. publicId note \<noteq> ''secret''),
      forbiddenNoteIds = [''forbidden''],
      noteRepository = [\<lparr>note_id = ''1'', publicId = ''abc''\<rparr>,
                        \<lparr>note_id = ''2'', publicId = ''secret''\<rparr>],
      aliasRepository = [\<lparr>alias_name = ''a/b'', alias_noteId = ''1''\<rparr>]\<rparr>"

definition example_gateway :: gateway where
  "example_gateway = \<lparr>noteClientMap = [1 \<mapsto> ''1'', 2 \<mapsto> ''1''], trace = []\<rparr>"

definition request :: "string \<Rightarrow> IncomingMessage" where
  "request u = \<lparr>url = Some u, headers = []\<rparr>"

text \<open>
  The same deployment without a user named \<open>hardcoded\<close>: every user lookup rejects.
\<close>

definition example_services_without_user :: services where
  "example_services_without_user =
     example_services\<lparr>getUserByUsername := (\<lambda>name. Inl (NotInDBError ''User not found''))\<rparr>"

text \<open>
  A decoder for the examples. It reads a number of at most four groups of seven bits, least
  significant group first, where a byte below \<open>0x80\<close> ends the number; it throws on a frame
  that ends inside the number and on a longer number. A number of four groups is below
  \<open>2 ^ 28\<close>, where arithmetic on 32-bit integers and on doubles gives the same result.
\<close>

fun readGroups :: "nat \<Rightarrow> nat \<Rightarrow> nat \<Rightarrow> Uint8Array \<Rightarrow> error + number" where
  "readGroups left num mult [] = Inl (Error ''frame ended inside the number'')"
| "readGroups left num mult (r # rest) =
     (let num' = num + unat (r AND 0x7F) * mult
      in if r < 0x80 then Inr (Finite num')
         else if left = 0 then Inl (Error ''number longer than four groups'')
         else readGroups (left - 1) num' (mult * 128) rest)"

definition example_decoding :: decoding where
  "example_decoding = \<lparr>readVarUint = readGroups 3 0 1\<rparr>"

text \<open>A handler list whose SYNC callback rejects, leaving the state as it found it.\<close>

definition rejectingHandlers :: "MessageHandler list" where
  "rejectingHandlers =
     [\<lparr>message = ''messageSync'',
       callback = (\<lambda>data st. (Inl (Error ''merge failed''), st))\<rparr>]"

section \<open>Basic facts\<close>

lemma trace_emit: "trace (emit evs st) = trace st @ evs"
  by (simp add: emit_def)

lemma noteClientMap_emit: "noteClientMap (emit evs st) = noteClientMap st"
  by (simp add: emit_def)

lemma emitted_emit: "emitted st (emit evs st) = evs"
  by (simp add: emitted_def emit_def)

lemma emitted_emit_registry: "emitted st (emit evs (st\<lparr>noteClientMap := m\<rparr>)) = evs"
  by (simp add: emitted_def emit_def)

section \<open>The admission pattern and the branches of handleConnection\<close>

lemma realtimePath_exec_Some:
  assumes "realtimePath_exec u = Some pathMatching"
  shows "pathMatching = [u, drop 10 u]"
    and "u = ''/realtime/'' @ drop 10 u"
    and "drop 10 u \<noteq> []"
    and "\<not> list_ex isLineTerminator (drop 10 u)"
proof -
  from assms have t: "take 10 u = ''/realtime/''"
    by (auto simp add: realtimePath_exec_def Let_def split: if_splits)
  from assms show "pathMatching = [u, drop 10 u]" "drop 10 u \<noteq> []"
      "\<not> list_ex isLineTerminator (drop 10 u)"
    by (auto simp add: realtimePath_exec_def Let_def split: if_splits)
  have "u = take 10 u @ drop 10 u" by simp
  with t show "u = ''/realtime/'' @ drop 10 u" by metis
qed

lemma realtimePath_exec_prefix:
  "s \<noteq> [] \<Longrightarrow> \<not> list_ex isLineTerminator s \<Longrightarrow>
   realtimePath_exec (''/realtime/'' @ s) = Some [''/realtime/'' @ s, s]"
  by (simp add: realtimePath_exec_def)

lemma handleConnection_matched:
  assumes "url req = Some u" and "realtimePath_exec u = Some pathMatching"
  shows "handleConnection svc client req st =
    (case getUserByUsername svc ''hardcoded'' of
       Inl e \<Rightarrow> (Inl e, emit [GetUserByUsername ''hardcoded''] st)
     | Inr user \<Rightarrow>
        (case getNoteByIdOrAlias svc (pathMatching ! 1) of
           (Inl e, dbg) \<Rightarrow>
             (Inr (), emit ([GetUserByUsername ''hardcoded'',
                             GetNoteByIdOrAlias (pathMatching ! 1)] @ dbg @
                            [Close client,
                             LogError (''Encountered an error: '' @ String_of_error e)]) st)
         | (Inr note, dbg) \<Rightarrow>
             if \<not> mayRead svc user note
             then (Inr (), emit ([GetUserByUsername ''hardcoded'',
                                  GetNoteByIdOrAlias (pathMatching ! 1)] @ dbg @
                                 [MayRead user note, Close client,
                                  Log (''Reading note '' @ [CHR 0x27] @ pathMatching ! 1
                                       @ [CHR 0x27] @ '' by user '' @ [CHR 0x27]
                                       @ userName user @ [CHR 0x27] @ '' denied!'')]) st)
             else (case addClient (noteClientMap st) client (note_id note) of
                     Inl e \<Rightarrow>
                       (Inl e, emit ([GetUserByUsername ''hardcoded'',
                                      GetNoteByIdOrAlias (pathMatching ! 1)] @ dbg @
                                     [MayRead user note]) st)
                   | Inr m \<Rightarrow>
                       (Inr (), emit ([GetUserByUsername ''hardcoded'',
                                       GetNoteByIdOrAlias (pathMatching ! 1)] @ dbg @
                                      [MayRead user note,
                                       Log (''Connection to note '' @ [CHR 0x27]
                                            @ note_id note @ [CHR 0x27] @ '' by user ''
                                            @ [CHR 0x27] @ userName user @ [CHR 0x27])])
                                     (st\<lparr>noteClientMap := m\<rparr>)))))"
proof -
  from assms(2) have len: "\<not> length pathMatching < 2"
    using realtimePath_exec_Some(1) by fastforce
  show ?thesis
    using assms len
    by (simp add: handleConnection_def Let_def emit_def split: sum.splits prod.splits)
qed

lemma getNoteByIdOrAlias_events:
  "ev \<in> set (snd (getNoteByIdOrAlias svc k)) \<Longrightarrow> \<exists>m c. ev = Debug m c"
  by (auto simp add: getNoteByIdOrAlias_def checkNoteIdOrAlias_def Let_def
      split: if_splits option.splits)

lemma getNoteByIdOrAlias_error:
  "getNoteByIdOrAlias svc k = (Inl e, dbg) \<Longrightarrow>
   (k \<in> set (forbiddenNoteIds svc) \<and> (\<exists>m. e = ForbiddenIdError m)) \<or>
   (k \<notin> set (forbiddenNoteIds svc) \<and> queryNote svc k = None \<and> (\<exists>m. e = NotInDBError m))"
  by (auto simp add: getNoteByIdOrAlias_def checkNoteIdOrAlias_def Let_def
      split: if_splits option.splits)

lemma getNoteByIdOrAlias_forbidden:
  "k \<in> set (forbiddenNoteIds svc) \<Longrightarrow>
   \<exists>m dbg. getNoteByIdOrAlias svc k = (Inl (ForbiddenIdError m), dbg)"
  by (simp add: getNoteByIdOrAlias_def checkNoteIdOrAlias_def Let_def)

lemma getNoteByIdOrAlias_missing:
  "k \<notin> set (forbiddenNoteIds svc) \<Longrightarrow> queryNote svc k = None \<Longrightarrow>
   \<exists>m dbg. getNoteByIdOrAlias svc k = (Inl (NotInDBError m), dbg)"
  by (simp add: getNoteByIdOrAlias_def checkNoteIdOrAlias_def Let_def)

lemma realtimePath_exec_None_iff:
  "realtimePath_exec u = None \<longleftrightarrow>
   \<not> (\<exists>s. s \<noteq> [] \<and> \<not> list_ex isLineTerminator s \<and> u = ''/realtime/'' @ s)"
proof
  assume n: "realtimePath_exec u = None"
  show "\<not> (\<exists>s. s \<noteq> [] \<and> \<not> list_ex isLineTerminator s \<and> u = ''/realtime/'' @ s)"
  proof
    assume "\<exists>s. s \<noteq> [] \<and> \<not> list_ex isLineTerminator s \<and> u = ''/realtime/'' @ s"
    then obtain s where "s \<noteq> []" "\<not> list_ex isLineTerminator s" "u = ''/realtime/'' @ s"
      by blast
    then have "realtimePath_exec u = Some [u, s]"
      using realtimePath_exec_prefix by simp
    with n show False by simp
  qed
next
  assume a: "\<not> (\<exists>s. s \<noteq> [] \<and> \<not> list_ex isLineTerminator s \<and> u = ''/realtime/'' @ s)"
  show "realtimePath_exec u = None"
  proof (cases "realtimePath_exec u")
    case None
    then show ?thesis .
  next
    case (Some pathMatching)
    from realtimePath_exec_Some(2,3,4) [OF Some] a show ?thesis by blast
  qed
qed

lemma handleConnection_unmatched:
  assumes "realtimePath_exec (case url req of None \<Rightarrow> [] | Some v \<Rightarrow> v) = None"
  shows "handleConnection svc client req st =
           (Inr (), emit [Log (''Realtime connection denied (invalid URL path): ''
                               @ (case url req of None \<Rightarrow> [] | Some v \<Rightarrow> v)),
                          Close client] st)"
  using assms by (simp add: handleConnection_def Let_def)

lemma realtimePath_exec_empty: "realtimePath_exec [] = None"
  by (simp add: realtimePath_exec_def)

lemma getNoteByIdOrAlias_no_Close: "Close c \<notin> set (snd (getNoteByIdOrAlias svc k))"
  using getNoteByIdOrAlias_events by blast

lemma getNoteByIdOrAlias_no_lookup:
  "GetUserByUsername n \<notin> set (snd (getNoteByIdOrAlias svc k))"
  "GetNoteByIdOrAlias l \<notin> set (snd (getNoteByIdOrAlias svc k))"
  "MayRead usr note \<notin> set (snd (getNoteByIdOrAlias svc k))"
  "Send c d \<notin> set (snd (getNoteByIdOrAlias svc k))"
  using getNoteByIdOrAlias_events by blast+

lemma handleConnection_closes_iff:
  "Close client \<in> set (emitted st (snd (handleConnection svc client req st)))
     \<longleftrightarrow> closes svc (url req)"
proof (cases "realtimePath_exec (case url req of None \<Rightarrow> [] | Some v \<Rightarrow> v)")
  case None
  then show ?thesis
    by (simp add: handleConnection_unmatched emitted_emit closes_def)
next
  case (Some pathMatching)
  then obtain u where u: "url req = Some u"
    by (cases "url req") (simp_all add: realtimePath_exec_empty)
  with Some have m: "realtimePath_exec u = Some pathMatching" by simp
  obtain r dbg where g: "getNoteByIdOrAlias svc (pathMatching ! 1) = (r, dbg)"
    by (cases "getNoteByIdOrAlias svc (pathMatching ! 1)")
  have nc: "Close client \<notin> set dbg"
    using getNoteByIdOrAlias_no_Close [of client svc "pathMatching ! 1"] g by simp
  show ?thesis
  proof (cases "getUserByUsername svc ''hardcoded''")
    case (Inl e)
    then show ?thesis
      by (simp add: handleConnection_matched [OF u m] closes_def m u emitted_emit)
  next
    case (Inr user)
    show ?thesis
    proof (cases r)
      case (Inl e)
      with Inr g show ?thesis
        by (simp add: handleConnection_matched [OF u m] closes_def m u emitted_emit
            del: One_nat_def)
    next
      case (Inr found)
      with Inr g nc show ?thesis
        by (simp add: handleConnection_matched [OF u m] closes_def m u emitted_emit
            emitted_emit_registry del: One_nat_def split: sum.splits)
    qed
  qed
qed


lemma handleConnection_lookups:
  assumes "ev \<in> set (emitted st (snd (handleConnection svc client req st)))"
  shows "(ev = GetUserByUsername name \<longrightarrow> name = ''hardcoded'')
       \<and> (ev = MayRead user found \<longrightarrow> getUserByUsername svc ''hardcoded'' = Inr user)
       \<and> (ev = GetNoteByIdOrAlias locator \<longrightarrow>
            (\<exists>u. url req = Some u \<and> realtimePath_exec u = Some [u, locator]))
       \<and> ev \<noteq> Send c d"
proof (cases "realtimePath_exec (case url req of None \<Rightarrow> [] | Some v \<Rightarrow> v)")
  case None
  with assms show ?thesis
    by (auto simp add: handleConnection_unmatched emitted_emit)
next
  case (Some pathMatching)
  then obtain u where u: "url req = Some u"
    by (cases "url req") (simp_all add: realtimePath_exec_empty)
  with Some have m: "realtimePath_exec u = Some pathMatching" by simp
  have p: "pathMatching = [u, pathMatching ! 1]"
    using realtimePath_exec_Some(1) [OF m] by simp
  obtain r dbg where g: "getNoteByIdOrAlias svc (pathMatching ! 1) = (r, dbg)"
    by (cases "getNoteByIdOrAlias svc (pathMatching ! 1)")
  have nd: "GetUserByUsername name \<notin> set dbg" "MayRead user found \<notin> set dbg"
      "GetNoteByIdOrAlias locator \<notin> set dbg" "Send c d \<notin> set dbg"
    using getNoteByIdOrAlias_no_lookup g by (metis snd_conv)+
  have loc: "locator = pathMatching ! 1 \<Longrightarrow> realtimePath_exec u = Some [u, locator]"
    using m p by simp
  show ?thesis
    using assms nd g loc
    by (auto simp add: handleConnection_matched [OF u m] emitted_emit emitted_emit_registry u
        simp del: One_nat_def split: sum.splits if_splits)
qed



section \<open>Admission\<close>

text \<open>
  C5: a connection whose request path does not match the admission pattern, the path
  \<open>/realtime/\<close> with its empty locator among them, is closed after one log line; the
  users service and the notes service are not called and the registry is left as it was.
\<close>

theorem handleConnection_invalid_path_closes:
  assumes "realtimePath_exec (case url req of None \<Rightarrow> [] | Some v \<Rightarrow> v) = None"
  shows "handleConnection svc client req st =
           (Inr (), emit [Log (''Realtime connection denied (invalid URL path): ''
                               @ (case url req of None \<Rightarrow> [] | Some v \<Rightarrow> v)),
                          Close client] st)
         \<and> noteClientMap (snd (handleConnection svc client req st)) = noteClientMap st
         \<and> (\<forall>name. GetUserByUsername name
                \<notin> set (emitted st (snd (handleConnection svc client req st))))
         \<and> (\<forall>locator. GetNoteByIdOrAlias locator
                \<notin> set (emitted st (snd (handleConnection svc client req st))))
         \<and> realtimePath_exec ''/realtime/'' = None"
proof -
  have eq: "handleConnection svc client req st =
           (Inr (), emit [Log (''Realtime connection denied (invalid URL path): ''
                               @ (case url req of None \<Rightarrow> [] | Some v \<Rightarrow> v)),
                          Close client] st)"
    using assms by (simp add: handleConnection_def Let_def)
  have "realtimePath_exec ''/realtime/'' = None"
    by (simp add: realtimePath_exec_def)
  with eq show ?thesis
    by (simp add: emitted_emit noteClientMap_emit)
qed

theorem handleConnection_invalid_path_closes_witness:
  "realtimePath_exec (case url (request ''/realtime/'') of None \<Rightarrow> [] | Some v \<Rightarrow> v) = None
   \<and> handleConnection example_services 3 (request ''/realtime/'') example_gateway =
       (Inr (), example_gateway\<lparr>trace :=
          [Log ''Realtime connection denied (invalid URL path): /realtime/'', Close 3]\<rparr>)"
  using handleConnection_invalid_path_closes [of "request ''/realtime/''" example_services 3 example_gateway]
  by (simp add: request_def realtimePath_exec_def emit_def example_gateway_def)

text \<open>
  C6: the lookup of a note throws \<open>ForbiddenIdError\<close> for a forbidden id and
  \<open>NotInDBError\<close> for a note that is not in the database, and nothing else. For a locator
  whose lookup throws, \<open>handleConnection\<close> leaves the registry as it was and sends no frame
  to any client; once the user lookup that precedes the note lookup has resolved, it closes
  the connection and logs the error.
\<close>

theorem handleConnection_lookup_failure_closes:
  assumes "url req = Some u"
      and "realtimePath_exec u = Some pathMatching"
      and "getNoteByIdOrAlias svc (pathMatching ! 1) = (Inl e, dbg)"
  shows "((\<exists>m. e = NotInDBError m) \<or> (\<exists>m. e = ForbiddenIdError m))
         \<and> noteClientMap (snd (handleConnection svc client req st)) = noteClientMap st
         \<and> (\<forall>c d. Send c d \<notin> set (emitted st (snd (handleConnection svc client req st))))
         \<and> (\<forall>user. getUserByUsername svc ''hardcoded'' = Inr user \<longrightarrow>
               handleConnection svc client req st =
                 (Inr (), emit ([GetUserByUsername ''hardcoded'',
                                 GetNoteByIdOrAlias (pathMatching ! 1)] @ dbg @
                                [Close client,
                                 LogError (''Encountered an error: '' @ String_of_error e)])
                            st))"
proof -
  have k: "(\<exists>m. e = NotInDBError m) \<or> (\<exists>m. e = ForbiddenIdError m)"
    using getNoteByIdOrAlias_error [OF assms(3)] by blast
  have r: "noteClientMap (snd (handleConnection svc client req st)) = noteClientMap st"
    using assms(3)
    by (simp add: handleConnection_matched [OF assms(1,2)] noteClientMap_emit
        split: sum.splits)
  have s: "Send c d \<notin> set (emitted st (snd (handleConnection svc client req st)))" for c d
    using handleConnection_lookups [of "Send c d" st svc client req undefined undefined
        undefined undefined c d]
    by blast
  have q: "handleConnection svc client req st =
                 (Inr (), emit ([GetUserByUsername ''hardcoded'',
                                 GetNoteByIdOrAlias (pathMatching ! 1)] @ dbg @
                                [Close client,
                                 LogError (''Encountered an error: '' @ String_of_error e)])
                            st)"
    if "getUserByUsername svc ''hardcoded'' = Inr user" for user
    using that assms(3) by (simp add: handleConnection_matched [OF assms(1,2)])
  from k r s q show ?thesis by blast
qed

theorem handleConnection_lookup_failure_closes_witness:
  "realtimePath_exec ''/realtime/forbidden'' = Some [''/realtime/forbidden'', ''forbidden'']
   \<and> isl (fst (getNoteByIdOrAlias example_services ''forbidden''))
   \<and> fst (handleConnection example_services 3 (request ''/realtime/forbidden'') example_gateway)
       = Inr ()
   \<and> Close 3 \<in> set (trace (snd (handleConnection example_services 3
                                   (request ''/realtime/forbidden'') example_gateway)))
   \<and> noteClientMap (snd (handleConnection example_services 3
                            (request ''/realtime/forbidden'') example_gateway))
       = noteClientMap example_gateway
   \<and> realtimePath_exec ''/realtime/nope'' = Some [''/realtime/nope'', ''nope'']
   \<and> isl (fst (getNoteByIdOrAlias example_services ''nope''))
   \<and> fst (handleConnection example_services 3 (request ''/realtime/nope'') example_gateway)
       = Inr ()
   \<and> Close 3 \<in> set (trace (snd (handleConnection example_services 3
                                   (request ''/realtime/nope'') example_gateway)))
   \<and> noteClientMap (snd (handleConnection example_services 3
                            (request ''/realtime/nope'') example_gateway))
       = noteClientMap example_gateway"
proof -
  have u: "getUserByUsername example_services ''hardcoded'' = Inr \<lparr>userName = ''hardcoded''\<rparr>"
    by (simp add: example_services_def)
  have f1: "url (request ''/realtime/forbidden'') = Some ''/realtime/forbidden''"
    by (simp add: request_def)
  have f2: "realtimePath_exec ''/realtime/forbidden''
              = Some [''/realtime/forbidden'', ''forbidden'']"
    by (simp add: realtimePath_exec_def Let_def isLineTerminator_def)
  obtain e1 dbg1 where f3:
    "getNoteByIdOrAlias example_services ([''/realtime/forbidden'', ''forbidden''] ! 1)
       = (Inl e1, dbg1)"
    by (simp add: getNoteByIdOrAlias_def checkNoteIdOrAlias_def Let_def example_services_def)
  have n1: "url (request ''/realtime/nope'') = Some ''/realtime/nope''"
    by (simp add: request_def)
  have n2: "realtimePath_exec ''/realtime/nope'' = Some [''/realtime/nope'', ''nope'']"
    by (simp add: realtimePath_exec_def Let_def isLineTerminator_def)
  obtain e2 dbg2 where n3:
    "getNoteByIdOrAlias example_services ([''/realtime/nope'', ''nope''] ! 1) = (Inl e2, dbg2)"
    by (simp add: getNoteByIdOrAlias_def checkNoteIdOrAlias_def queryNote_def Let_def
        example_services_def)
  from f3 have f4: "isl (fst (getNoteByIdOrAlias example_services ''forbidden''))" by simp
  from n3 have n4: "isl (fst (getNoteByIdOrAlias example_services ''nope''))" by simp
  have a: "handleConnection example_services 3 (request ''/realtime/forbidden'') example_gateway
       = (Inr (), emit ([GetUserByUsername ''hardcoded'',
            GetNoteByIdOrAlias ([''/realtime/forbidden'', ''forbidden''] ! 1)] @ dbg1 @
            [Close 3, LogError (''Encountered an error: '' @ String_of_error e1)])
            example_gateway)"
    using handleConnection_lookup_failure_closes [OF f1 f2 f3, where client = 3 and st = example_gateway]
      u
    by blast
  have b: "handleConnection example_services 3 (request ''/realtime/nope'') example_gateway
       = (Inr (), emit ([GetUserByUsername ''hardcoded'',
            GetNoteByIdOrAlias ([''/realtime/nope'', ''nope''] ! 1)] @ dbg2 @
            [Close 3, LogError (''Encountered an error: '' @ String_of_error e2)])
            example_gateway)"
    using handleConnection_lookup_failure_closes [OF n1 n2 n3, where client = 3 and st = example_gateway]
      u
    by blast
  show ?thesis
    unfolding a b using f2 n2 f4 n4 by (simp add: trace_emit noteClientMap_emit)
qed

text \<open>
  C2: when the path matches, the note is found and \<open>mayRead\<close> denies the hard-coded user,
  \<open>handleConnection\<close> closes the connection and logs the denial, and the registry is left as
  it was (the gateway holds no presence store). Whenever \<open>handleConnection\<close> changes the
  registry, the path matched, the note was found and \<open>mayRead\<close> granted access.
\<close>

theorem handleConnection_read_denied_closes:
  "(url req = Some u \<and> realtimePath_exec u = Some pathMatching
      \<and> getUserByUsername svc ''hardcoded'' = Inr user
      \<and> getNoteByIdOrAlias svc (pathMatching ! 1) = (Inr found, dbg)
      \<and> \<not> mayRead svc user found
    \<longrightarrow> handleConnection svc client req st =
          (Inr (), emit ([GetUserByUsername ''hardcoded'',
                          GetNoteByIdOrAlias (pathMatching ! 1)] @ dbg @
                         [MayRead user found, Close client,
                          Log (''Reading note '' @ [CHR 0x27] @ pathMatching ! 1
                               @ [CHR 0x27] @ '' by user '' @ [CHR 0x27]
                               @ userName user @ [CHR 0x27] @ '' denied!'')]) st)
        \<and> noteClientMap (snd (handleConnection svc client req st)) = noteClientMap st)
   \<and> (noteClientMap (snd (handleConnection svc client req st)) \<noteq> noteClientMap st
      \<longrightarrow> (\<exists>u pathMatching user found dbg.
             url req = Some u \<and> realtimePath_exec u = Some pathMatching
           \<and> getUserByUsername svc ''hardcoded'' = Inr user
           \<and> getNoteByIdOrAlias svc (pathMatching ! 1) = (Inr found, dbg)
           \<and> mayRead svc user found))"
proof (intro conjI impI)
  assume a: "url req = Some u \<and> realtimePath_exec u = Some pathMatching
      \<and> getUserByUsername svc ''hardcoded'' = Inr user
      \<and> getNoteByIdOrAlias svc (pathMatching ! 1) = (Inr found, dbg)
      \<and> \<not> mayRead svc user found"
  then have u: "url req = Some u" and m: "realtimePath_exec u = Some pathMatching" by simp_all
  from a show eq: "handleConnection svc client req st =
          (Inr (), emit ([GetUserByUsername ''hardcoded'',
                          GetNoteByIdOrAlias (pathMatching ! 1)] @ dbg @
                         [MayRead user found, Close client,
                          Log (''Reading note '' @ [CHR 0x27] @ pathMatching ! 1
                               @ [CHR 0x27] @ '' by user '' @ [CHR 0x27]
                               @ userName user @ [CHR 0x27] @ '' denied!'')]) st)"
    by (simp add: handleConnection_matched [OF u m] del: One_nat_def)
  show "noteClientMap (snd (handleConnection svc client req st)) = noteClientMap st"
    by (simp add: eq noteClientMap_emit)
next
  assume ch: "noteClientMap (snd (handleConnection svc client req st)) \<noteq> noteClientMap st"
  show "\<exists>u pathMatching user found dbg.
             url req = Some u \<and> realtimePath_exec u = Some pathMatching
           \<and> getUserByUsername svc ''hardcoded'' = Inr user
           \<and> getNoteByIdOrAlias svc (pathMatching ! 1) = (Inr found, dbg)
           \<and> mayRead svc user found"
  proof (cases "realtimePath_exec (case url req of None \<Rightarrow> [] | Some v \<Rightarrow> v)")
    case None
    with ch show ?thesis
      by (simp add: handleConnection_unmatched noteClientMap_emit)
  next
    case (Some pathMatching)
    then obtain u where u: "url req = Some u"
      by (cases "url req") (simp_all add: realtimePath_exec_empty)
    with Some have m: "realtimePath_exec u = Some pathMatching" by simp
    obtain r dbg where g: "getNoteByIdOrAlias svc (pathMatching ! 1) = (r, dbg)"
      by (cases "getNoteByIdOrAlias svc (pathMatching ! 1)")
    from ch g have "\<exists>user found. getUserByUsername svc ''hardcoded'' = Inr user
        \<and> r = Inr found \<and> mayRead svc user found"
      by (auto simp add: handleConnection_matched [OF u m] noteClientMap_emit
          simp del: One_nat_def split: sum.splits if_splits)
    with u m g show ?thesis by blast
  qed
qed


theorem handleConnection_read_denied_closes_witness:
  "realtimePath_exec ''/realtime/secret'' = Some [''/realtime/secret'', ''secret'']
   \<and> fst (getNoteByIdOrAlias example_services ''secret'')
       = Inr \<lparr>note_id = ''2'', publicId = ''secret''\<rparr>
   \<and> \<not> mayRead example_services \<lparr>userName = ''hardcoded''\<rparr>
           \<lparr>note_id = ''2'', publicId = ''secret''\<rparr>
   \<and> fst (handleConnection example_services 3 (request ''/realtime/secret'') example_gateway)
       = Inr ()
   \<and> Close 3 \<in> set (trace (snd (handleConnection example_services 3
                                   (request ''/realtime/secret'') example_gateway)))
   \<and> noteClientMap (snd (handleConnection example_services 3
                            (request ''/realtime/secret'') example_gateway))
       = noteClientMap example_gateway"
proof -
  have h1: "url (request ''/realtime/secret'') = Some ''/realtime/secret''"
    by (simp add: request_def)
  have h2: "realtimePath_exec ''/realtime/secret'' = Some [''/realtime/secret'', ''secret'']"
    by (simp add: realtimePath_exec_def Let_def isLineTerminator_def)
  have h3: "getUserByUsername example_services ''hardcoded'' = Inr \<lparr>userName = ''hardcoded''\<rparr>"
    by (simp add: example_services_def)
  obtain dbg where h4:
    "getNoteByIdOrAlias example_services ([''/realtime/secret'', ''secret''] ! 1)
       = (Inr \<lparr>note_id = ''2'', publicId = ''secret''\<rparr>, dbg)"
    by (simp add: getNoteByIdOrAlias_def checkNoteIdOrAlias_def queryNote_def Let_def
        example_services_def)
  have h5: "\<not> mayRead example_services \<lparr>userName = ''hardcoded''\<rparr>
               \<lparr>note_id = ''2'', publicId = ''secret''\<rparr>"
    by (simp add: example_services_def)
  have eq: "handleConnection example_services 3 (request ''/realtime/secret'') example_gateway =
          (Inr (), emit ([GetUserByUsername ''hardcoded'',
                          GetNoteByIdOrAlias ([''/realtime/secret'', ''secret''] ! 1)] @ dbg @
                         [MayRead \<lparr>userName = ''hardcoded''\<rparr>
                            \<lparr>note_id = ''2'', publicId = ''secret''\<rparr>, Close 3,
                          Log (''Reading note '' @ [CHR 0x27]
                               @ [''/realtime/secret'', ''secret''] ! 1
                               @ [CHR 0x27] @ '' by user '' @ [CHR 0x27]
                               @ userName \<lparr>userName = ''hardcoded''\<rparr> @ [CHR 0x27]
                               @ '' denied!'')]) example_gateway)"
    using handleConnection_read_denied_closes [where req = "request ''/realtime/secret''" and u = "''/realtime/secret''"
        and pathMatching = "[''/realtime/secret'', ''secret'']" and svc = example_services
        and user = "\<lparr>userName = ''hardcoded''\<rparr>"
        and found = "\<lparr>note_id = ''2'', publicId = ''secret''\<rparr>" and dbg = dbg
        and client = 3 and st = example_gateway]
      h1 h2 h3 h4 h5
    by blast
  from h4 have h4': "fst (getNoteByIdOrAlias example_services ''secret'')
       = Inr \<lparr>note_id = ''2'', publicId = ''secret''\<rparr>" by simp
  show ?thesis
    unfolding eq using h2 h4' h5 by (simp add: trace_emit noteClientMap_emit)
qed



text \<open>
  C10 as stated fails. Where no user named \<open>hardcoded\<close> exists, the path \<open>/realtime/a/b\<close>
  parses with \<open>a/b\<close> as its group, but the user lookup rejects and \<open>handleConnection\<close>
  rejects with it: the locator is never passed to the lookup of a note.
\<close>

theorem handleConnection_no_user_no_lookup:
  "realtimePath_exec ''/realtime/a/b'' = Some [''/realtime/a/b'', ''a/b'']
   \<and> handleConnection example_services_without_user 3 (request ''/realtime/a/b'') example_gateway
       = (Inl (NotInDBError ''User not found''),
          example_gateway\<lparr>trace := [GetUserByUsername ''hardcoded'']\<rparr>)"
  by (simp add: handleConnection_def request_def realtimePath_exec_def Let_def
      isLineTerminator_def emit_def example_gateway_def example_services_without_user_def
      example_services_def)

text \<open>
  C10, amended: for every non-empty remainder \<open>s\<close> that a request target can hold (8-bit
  characters, none of them a carriage return or a line feed), slashes included, the path
  \<open>/realtime/s\<close> parses with the whole of \<open>s\<close> as its captured group, and
  \<open>handleConnection\<close> looks up no locator but \<open>s\<close>. Once the lookup of the user
  \<open>hardcoded\<close> has resolved, the lookup of \<open>s\<close> is its second call, and the connection is
  closed exactly when that lookup fails or \<open>mayRead\<close> denies the note it found; where the
  user lookup rejects, \<open>handleConnection\<close> rejects with the same error and looks up no note.
\<close>

theorem handleConnection_locator_verbatim:
  assumes "s \<noteq> []" and "\<not> list_ex isLineTerminator s"
      and "url req = Some (''/realtime/'' @ s)"
  shows "realtimePath_exec (''/realtime/'' @ s) = Some [''/realtime/'' @ s, s]
       \<and> (\<forall>locator. GetNoteByIdOrAlias locator
              \<in> set (emitted st (snd (handleConnection svc client req st))) \<longrightarrow> locator = s)
       \<and> (\<forall>user. getUserByUsername svc ''hardcoded'' = Inr user \<longrightarrow>
             take 2 (emitted st (snd (handleConnection svc client req st)))
               = [GetUserByUsername ''hardcoded'', GetNoteByIdOrAlias s]
           \<and> (Close client \<in> set (emitted st (snd (handleConnection svc client req st))))
               = (case fst (getNoteByIdOrAlias svc s) of
                    Inl e \<Rightarrow> True | Inr found \<Rightarrow> \<not> mayRead svc user found))
       \<and> (\<forall>e. getUserByUsername svc ''hardcoded'' = Inl e \<longrightarrow>
             handleConnection svc client req st
               = (Inl e, emit [GetUserByUsername ''hardcoded''] st))"
proof -
  have m: "realtimePath_exec (''/realtime/'' @ s) = Some [''/realtime/'' @ s, s]"
    using assms(1,2) by (rule realtimePath_exec_prefix)
  obtain r dbg where g: "getNoteByIdOrAlias svc s = (r, dbg)"
    by (cases "getNoteByIdOrAlias svc s")
  have t: "take 2 (emitted st (snd (handleConnection svc client req st)))
           = [GetUserByUsername ''hardcoded'', GetNoteByIdOrAlias s]"
    if "getUserByUsername svc ''hardcoded'' = Inr user" for user
    using that g
    by (simp add: handleConnection_matched [OF assms(3) m] emitted_emit emitted_emit_registry
        split: sum.splits)
  have l: "locator = s"
    if "GetNoteByIdOrAlias locator \<in> set (emitted st (snd (handleConnection svc client req st)))"
    for locator
    using handleConnection_lookups [OF that, of undefined undefined undefined locator] assms(3) m
    by simp
  have c: "(Close client \<in> set (emitted st (snd (handleConnection svc client req st))))
           = (case fst (getNoteByIdOrAlias svc s) of
                Inl e \<Rightarrow> True | Inr found \<Rightarrow> \<not> mayRead svc user found)"
    if "getUserByUsername svc ''hardcoded'' = Inr user" for user
    using that assms(3) m by (simp add: handleConnection_closes_iff closes_def)
  have n: "handleConnection svc client req st
               = (Inl e, emit [GetUserByUsername ''hardcoded''] st)"
    if "getUserByUsername svc ''hardcoded'' = Inl e" for e
    using that by (simp add: handleConnection_matched [OF assms(3) m])
  from m t l c n show ?thesis by blast
qed

theorem handleConnection_locator_verbatim_witness:
  "''a/b'' \<noteq> [] \<and> \<not> list_ex isLineTerminator ''a/b''
   \<and> url (request ''/realtime/a/b'') = Some (''/realtime/'' @ ''a/b'')
   \<and> getUserByUsername example_services ''hardcoded'' = Inr \<lparr>userName = ''hardcoded''\<rparr>
   \<and> realtimePath_exec ''/realtime/a/b'' = Some [''/realtime/a/b'', ''a/b'']
   \<and> take 2 (emitted example_gateway
         (snd (handleConnection example_services 3 (request ''/realtime/a/b'') example_gateway)))
       = [GetUserByUsername ''hardcoded'', GetNoteByIdOrAlias ''a/b'']"
proof -
  have h1: "''a/b'' \<noteq> []" by simp
  have h2: "\<not> list_ex isLineTerminator ''a/b''" by (simp add: isLineTerminator_def)
  have h3: "url (request ''/realtime/a/b'') = Some (''/realtime/'' @ ''a/b'')"
    by (simp add: request_def)
  have h4: "getUserByUsername example_services ''hardcoded'' = Inr \<lparr>userName = ''hardcoded''\<rparr>"
    by (simp add: example_services_def)
  from handleConnection_locator_verbatim [OF h1 h2 h3, where st = example_gateway
      and svc = example_services and client = 3]
    h1 h2 h3 h4
  show ?thesis by simp
qed

section \<open>Disconnecting\<close>

text \<open>
  C7: for a client the registry does not know (\<open>getNoteIdByClient\<close> returns undefined),
  \<open>handleDisconnect\<close> returns at its first test: the whole gateway state, registry and
  trace, is what it was, so nothing is logged and nothing is thrown, and a second call
  changes nothing either.
\<close>

theorem handleDisconnect_unattached_noop:
  assumes "getNoteIdByClient (noteClientMap st) client = None"
  shows "handleDisconnect client st = st
       \<and> handleDisconnect client (handleDisconnect client st) = handleDisconnect client st"
  using assms by (simp add: handleDisconnect_def)

theorem handleDisconnect_unattached_noop_witness:
  "getNoteIdByClient (noteClientMap example_gateway) 3 = None
   \<and> handleDisconnect 3 example_gateway = example_gateway"
  using handleDisconnect_unattached_noop [of example_gateway 3]
  by (simp add: getNoteIdByClient_def example_gateway_def)

text \<open>
  C3 as stated fails: when client 1, the only client of note 1, disconnects, the one call
  \<open>handleDisconnect\<close> makes on a collaborator is a log line. No content is stored.
\<close>

theorem handleDisconnect_last_client_no_flush:
  "getNoteIdByClient (noteClientMap \<lparr>noteClientMap = [1 \<mapsto> ''1''], trace = []\<rparr>) 1 = Some ''1''
   \<and> peers (noteClientMap \<lparr>noteClientMap = [1 \<mapsto> ''1''], trace = []\<rparr>) ''1'' 1 = {}
   \<and> trace (handleDisconnect 1 \<lparr>noteClientMap = [1 \<mapsto> ''1''], trace = []\<rparr>)
       = [Log (''Client disconnected from note '' @ [CHR 0x27] @ ''1'' @ [CHR 0x27])]"
  by (simp add: handleDisconnect_def getNoteIdByClient_def peers_def emit_def Let_def)

text \<open>
  C3, amended: when a client attached to a note disconnects, the last client of the note
  included, \<open>handleDisconnect\<close> logs the disconnect and removes the client from the
  registry; the registry is the only gateway state it changes.
\<close>

theorem handleDisconnect_last_client_removed:
  assumes "getNoteIdByClient (noteClientMap st) client = Some noteId"
  shows "handleDisconnect client st =
           \<lparr>noteClientMap = removeClient (noteClientMap st) client,
            trace = trace st @ [Log (''Client disconnected from note '' @ [CHR 0x27] @ noteId
                                     @ [CHR 0x27])]\<rparr>
       \<and> emitted st (handleDisconnect client st)
           = [Log (''Client disconnected from note '' @ [CHR 0x27] @ noteId @ [CHR 0x27])]"
  using assms by (simp add: handleDisconnect_def emit_def emitted_def Let_def)

theorem handleDisconnect_last_client_removed_witness:
  "getNoteIdByClient (noteClientMap \<lparr>noteClientMap = [1 \<mapsto> ''1''], trace = []\<rparr>) 1 = Some ''1''
   \<and> peers (noteClientMap \<lparr>noteClientMap = [1 \<mapsto> ''1''], trace = []\<rparr>) ''1'' 1 = {}
   \<and> handleDisconnect 1 \<lparr>noteClientMap = [1 \<mapsto> ''1''], trace = []\<rparr>
       = \<lparr>noteClientMap = removeClient [1 \<mapsto> ''1''] 1,
          trace = [Log (''Client disconnected from note '' @ [CHR 0x27] @ ''1'' @ [CHR 0x27])]\<rparr>
   \<and> getNoteIdByClient
        (noteClientMap (handleDisconnect 1 \<lparr>noteClientMap = [1 \<mapsto> ''1''], trace = []\<rparr>)) 1
       = None"
proof -
  have h1: "getNoteIdByClient (noteClientMap \<lparr>noteClientMap = [1 \<mapsto> ''1''], trace = []\<rparr>) 1
              = Some ''1''"
    by (simp add: getNoteIdByClient_def)
  have h2: "peers (noteClientMap \<lparr>noteClientMap = [1 \<mapsto> ''1''], trace = []\<rparr>) ''1'' 1 = {}"
    by (simp add: peers_def)
  have eq: "handleDisconnect 1 \<lparr>noteClientMap = [1 \<mapsto> ''1''], trace = []\<rparr>
       = \<lparr>noteClientMap = removeClient [1 \<mapsto> ''1''] 1,
          trace = [Log (''Client disconnected from note '' @ [CHR 0x27] @ ''1'' @ [CHR 0x27])]\<rparr>"
    using handleDisconnect_last_client_removed [OF h1] by simp
  show ?thesis
    unfolding eq using h1 h2 by (simp add: getNoteIdByClient_def removeClient_def)
qed

text \<open>
  With the registry of the specification, no client is attached to a note once its only
  client was removed.
\<close>

lemma removeClient_last:
  assumes "peers m noteId client = {}"
  shows "getNoteIdByClient (removeClient m client) c \<noteq> Some noteId"
  using assms by (auto simp add: getNoteIdByClient_def removeClient_def peers_def)

section \<open>Dispatching frames\<close>

lemma bindMessageHandlers_decoded:
  assumes "readVarUint decoding uint8Data = Inr messageType"
  shows "bindMessageHandlers decoding client handlers uint8Data st =
     (case find (\<lambda>handler. Some (message handler) = messageTypeMap messageType) handlers of
        None \<Rightarrow> (Inr (), emit [LogError ''Some message handlers were not defined!''] st)
      | Some handler \<Rightarrow> (Inr (), snd (callback handler uint8Data st)))"
  using assms
  by (simp add: bindMessageHandlers_def split: option.splits prod.splits sum.splits)

lemma bindMessageHandlers_thrown:
  assumes "readVarUint decoding uint8Data = Inl e"
  shows "bindMessageHandlers decoding client handlers uint8Data st = (Inl e, st)"
  using assms by (simp add: bindMessageHandlers_def)


lemma bindMessageHandlers_catch:
  assumes "readVarUint decoding uint8Data = Inr messageType"
      and "find (\<lambda>handler. Some (message handler) = messageTypeMap messageType) handlers
             = Some handler"
      and "callback handler uint8Data st = (Inl error, st')"
  shows "bindMessageHandlers decoding client handlers uint8Data st = (Inr (), st')"
  using assms by (simp add: bindMessageHandlers_def)

lemma example_decoding_frames:
  "readVarUint example_decoding [0, 2, 1, 0] = Inr (Finite 0)"
  "readVarUint example_decoding [0] = Inr (Finite 0)"
  "readVarUint example_decoding [0x80, 0] = Inr (Finite 0)"
  "readVarUint example_decoding [0x81, 0, 5] = Inr (Finite 1)"
  "readVarUint example_decoding [0xE4, 0, 7] = Inr (Finite 100)"
  "readVarUint example_decoding [0x80, 1, 9] = Inr (Finite 128)"
  "readVarUint example_decoding [] = Inl (Error ''frame ended inside the number'')"
  "readVarUint example_decoding [0x80] = Inl (Error ''frame ended inside the number'')"
  by (simp_all add: example_decoding_def)




text \<open>
  C1 as stated fails: clients 1 and 2 are attached to note 1; client 1 sends a SYNC frame
  that carries an update. The listener runs \<open>handleMessageSync\<close>, which logs one line:
  nothing is sent to client 2.
\<close>

theorem handleMessageSync_no_broadcast:
  "getNoteIdByClient (noteClientMap example_gateway) 1 = Some ''1''
   \<and> 2 \<in> peers (noteClientMap example_gateway) ''1'' 1
   \<and> readVarUint example_decoding [0, 2, 1, 0] = Inr (Finite 0)
   \<and> bindMessageHandlers example_decoding 1 (subscribedHandlers 1) [0, 2, 1, 0] example_gateway
       = (Inr (), example_gateway\<lparr>trace := [Log ''Received SYNC message'']\<rparr>)"
  by (simp add: getNoteIdByClient_def peers_def example_gateway_def example_decoding_def
      bindMessageHandlers_def subscribedHandlers_def messageTypeMap_def handleMessageSync_def
      emit_def)

text \<open>
  C1, amended: \<open>handleMessageSync\<close> logs that a SYNC message was received and resolves. It
  leaves the registry as it was and sends no frame to any client, neither to the other
  clients of the same note nor to those of another note; a frame whose leading number is 0,
  received through the listener with the handlers of the gateway, has exactly this effect,
  whatever the decoder.
\<close>

theorem handleMessageSync_only_logs:
  "handleMessageSync client data st = (Inr (), emit [Log ''Received SYNC message''] st)
   \<and> noteClientMap (snd (handleMessageSync client data st)) = noteClientMap st
   \<and> (\<forall>c d. Send c d \<notin> set (emitted st (snd (handleMessageSync client data st))))
   \<and> (readVarUint decoding data = Inr (Finite 0) \<longrightarrow>
        bindMessageHandlers decoding client (subscribedHandlers client) data st
          = (Inr (), emit [Log ''Received SYNC message''] st))"
  by (simp add: handleMessageSync_def noteClientMap_emit emitted_emit
      bindMessageHandlers_decoded subscribedHandlers_def messageTypeMap_def)

theorem handleMessageSync_only_logs_witness:
  "readVarUint example_decoding [0, 2, 1, 0] = Inr (Finite 0)
   \<and> bindMessageHandlers example_decoding 1 (subscribedHandlers 1) [0, 2, 1, 0] example_gateway
       = (Inr (), emit [Log ''Received SYNC message''] example_gateway)"
proof -
  have r0: "readVarUint example_decoding [0, 2, 1, 0] = Inr (Finite 0)"
    by (rule example_decoding_frames(1))
  with handleMessageSync_only_logs [of 1 "[0, 2, 1, 0]" example_gateway example_decoding]
  show ?thesis by blast
qed

text \<open>
  C8, at a handler whose promise rejects: the listener swallows the rejection, so nothing
  leaves the listener, and the state it returns is the one the callback left: the trace
  holds no log line for the failure.
\<close>

theorem bindMessageHandlers_rejection_not_logged:
  "readVarUint example_decoding [0] = Inr (Finite 0)
   \<and> callback (hd rejectingHandlers) [0] example_gateway
       = (Inl (Error ''merge failed''), example_gateway)
   \<and> bindMessageHandlers example_decoding 1 rejectingHandlers [0] example_gateway
       = (Inr (), example_gateway)"
  by (simp add: example_decoding_def rejectingHandlers_def bindMessageHandlers_def
      messageTypeMap_def)

end
